theory Spec2Isabelle
  imports Complex_Main
begin

section \<open>Anomaly detection by kernel-PCA reconstruction error\<close>

text \<open>
  A shallow embedding of \<^verbatim>\<open>recon_error_kpca.py\<close> (class \<^verbatim>\<open>KPCA_Recon_Error\<close>).
  A two-dimensional array is the list of its rows, and every exception the Python can
  raise is a value \<open>Inl e\<close> of a sum type. Floating-point numbers are idealised as
  reals, with one exception: the product that sizes the anomaly set is rounded the way
  float64 rounds it, because the ceiling taken of it can change with the last bit. The
  real-valued sums, square roots and quotients agree with the float64 ones up to rounding
  only, so no statement below depends on their exact value, other than at inputs where
  the float64 computation is itself exact.

  The class calls three library routines whose code is not part of the repository.
  \<^item> \<^verbatim>\<open>StandardScaler().fit_transform\<close> is written out below from its documented behaviour
    (column mean, population standard deviation, a zero scale replaced by one).
  \<^item> \<^verbatim>\<open>KernelPCA\<close> and \<^verbatim>\<open>np.argsort\<close> are parameters of the model, collected in the record
    \<open>library\<close>: the eigenvalues of the full decomposition, the rank-\<open>k\<close> reconstruction,
    and the permutation argsort returns. A fitted \<^verbatim>\<open>KernelPCA\<close> is a function of the kernel,
    gamma, the random state and the matrix, which is how the class configures it.
  \<^item> \<^verbatim>\<open>np.random.choice\<close> draws from NumPy's global generator, which no argument of the
    class seeds; each invocation therefore takes the generator's draw as an argument.
\<close>

subsection \<open>Data\<close>

type_synonym matrix = "real list list"

datatype error = AssertionError string | ValueError string | LibraryError string

datatype kernel_name = Linear | Poly | Rbf | Sigmoid | Cosine | Precomputed

datatype ndarray = Scalar real | Array1 "real list"

text \<open>
  The object. The entries of the matrix and the contamination are Python floats; the
  docstring gives \<open>verbose\<close> as an integer.
\<close>

record KPCA_Recon_Error =
  matrix :: matrix
  contamination :: real
  kernel :: kernel_name
  gamma :: "real option"
  verbose :: int
  random_state :: int

record library =
  KernelPCA_lambdas :: "kernel_name \<Rightarrow> real option \<Rightarrow> int \<Rightarrow> matrix \<Rightarrow> error + real list"
  KernelPCA_reconstruct :: "nat \<Rightarrow> kernel_name \<Rightarrow> real option \<Rightarrow> int \<Rightarrow> matrix \<Rightarrow> error + matrix"
  np_argsort :: "real list \<Rightarrow> nat list"

text \<open>\<^verbatim>\<open>M.shape\<close> of a two-dimensional array given as its rows.\<close>

definition shape :: "matrix \<Rightarrow> nat \<times> nat" where
  "shape M = (length M, case M of [] \<Rightarrow> 0 | r # _ \<Rightarrow> length r)"

subsection \<open>The constructor: standardisation\<close>

definition np_mean :: "real list \<Rightarrow> real" where
  "np_mean xs = sum_list xs / real (length xs)"

definition np_var :: "real list \<Rightarrow> real" where
  "np_var xs = np_mean (map (\<lambda>x. (x - np_mean xs)\<^sup>2) xs)"

definition column :: "matrix \<Rightarrow> nat \<Rightarrow> real list" where
  "column M j = map (\<lambda>r. r ! j) M"

text \<open>The scaler leaves a column of zero standard deviation unscaled: its scale becomes 1.\<close>

definition handle_zeros_in_scale :: "real \<Rightarrow> real" where
  "handle_zeros_in_scale s = (if s = 0 then 1 else s)"

definition scale_of :: "real list \<Rightarrow> real" where
  "scale_of xs = handle_zeros_in_scale (sqrt (np_var xs))"

definition is_2d :: "matrix \<Rightarrow> bool" where
  "is_2d M = (M \<noteq> [] \<and> snd (shape M) \<noteq> 0 \<and> list_all (\<lambda>r. length r = snd (shape M)) M)"

definition StandardScaler_fit_transform :: "matrix \<Rightarrow> error + matrix" where
  "StandardScaler_fit_transform M =
     (if \<not> is_2d M then Inl (ValueError ''Expected 2D array with at least one sample and one feature'')
      else Inr (map (\<lambda>r. map (\<lambda>j. (r ! j - np_mean (column M j)) / scale_of (column M j))
                              [0..<snd (shape M)]) M))"

text \<open>\<^verbatim>\<open>__init__\<close>: the standardised matrix and the parameters are stored; nothing is checked.\<close>

definition KPCA_Recon_Error_init ::
  "matrix \<Rightarrow> real \<Rightarrow> kernel_name \<Rightarrow> int \<Rightarrow> real option \<Rightarrow> int \<Rightarrow> error + KPCA_Recon_Error" where
  "KPCA_Recon_Error_init raw c k v g rs =
     (case StandardScaler_fit_transform raw of
        Inl e \<Rightarrow> Inl e
      | Inr X \<Rightarrow> Inr \<lparr>matrix = X, contamination = c, kernel = k, gamma = g,
                      verbose = v, random_state = rs\<rparr>)"

subsection \<open>\<^verbatim>\<open>get_ev_ratio\<close>\<close>

fun cumsum_from :: "real \<Rightarrow> real list \<Rightarrow> real list" where
  "cumsum_from acc [] = []"
| "cumsum_from acc (x # xs) = (acc + x) # cumsum_from (acc + x) xs"

definition np_cumsum :: "real list \<Rightarrow> real list" where
  "np_cumsum xs = cumsum_from 0 xs"

text \<open>
  \<^verbatim>\<open>np.cumsum(lambdas_) / np.sum(lambdas_)\<close>. In float64 the running sums and the total
  are accumulated in different orders, so a ratio can differ from the real quotient in
  its last bit; a total of zero gives \<^verbatim>\<open>nan\<close> there and 0 here.
\<close>

definition get_ev_ratio :: "library \<Rightarrow> KPCA_Recon_Error \<Rightarrow> error + real list" where
  "get_ev_ratio lib self =
     (case KernelPCA_lambdas lib (kernel self) (gamma self) (random_state self) (matrix self) of
        Inl e \<Rightarrow> Inl e
      | Inr lambdas \<Rightarrow> Inr (map (\<lambda>c. c / sum_list lambdas) (np_cumsum lambdas)))"

subsection \<open>\<^verbatim>\<open>reconstruct_matrix\<close>\<close>

definition assert_description :: string where
  "assert_description =
     ''The shape of the reconstruction matrix should be equal to that of the initial matrix.''"

definition description :: string where
  "description =
     ''The reconstruction matrices generated by different number of principal components are different.''"

definition reconstruct :: "library \<Rightarrow> KPCA_Recon_Error \<Rightarrow> nat \<Rightarrow> error + matrix" where
  "reconstruct lib self recon_pc_num =
     (case KernelPCA_reconstruct lib recon_pc_num (kernel self) (gamma self) (random_state self)
             (matrix self) of
        Inl e \<Rightarrow> Inl e
      | Inr recon_matrix \<Rightarrow>
          if shape recon_matrix = shape (matrix self) then Inr recon_matrix
          else Inl (AssertionError assert_description))"

text \<open>The list comprehension \<^verbatim>\<open>[f(i) for i in ks]\<close>; the first exception ends it.\<close>

fun comprehension :: "(nat \<Rightarrow> error + 'a) \<Rightarrow> nat list \<Rightarrow> error + 'a list" where
  "comprehension f [] = Inr []"
| "comprehension f (i # ks) =
     (case f i of
        Inl e \<Rightarrow> Inl e
      | Inr y \<Rightarrow> (case comprehension f ks of Inl e \<Rightarrow> Inl e | Inr ys \<Rightarrow> Inr (y # ys)))"

text \<open>
  The loop \<^verbatim>\<open>for i in ks: recon_matrices.append(f(i))\<close> of the verbose branch. The progress
  lines it prints and the clock it reads do not reach the result and are left out.
\<close>

fun append_loop :: "(nat \<Rightarrow> error + 'a) \<Rightarrow> nat list \<Rightarrow> 'a list \<Rightarrow> error + 'a list" where
  "append_loop f [] recon_matrices = Inr recon_matrices"
| "append_loop f (i # ks) recon_matrices =
     (case f i of
        Inl e \<Rightarrow> Inl e
      | Inr y \<Rightarrow> append_loop f ks (recon_matrices @ [y]))"

definition recon_series :: "library \<Rightarrow> KPCA_Recon_Error \<Rightarrow> error + matrix list" where
  "recon_series lib self =
     (let cols_num = snd (shape (matrix self)) in
      if verbose self = 0 then comprehension (reconstruct lib self) [1..<cols_num + 1]
      else append_loop (reconstruct lib self) [1..<cols_num + 1] [])"

text \<open>
  \<^verbatim>\<open>np.random.choice(range(n), size=2, replace=False)\<close>. A population of fewer than two
  elements raises \<^verbatim>\<open>ValueError\<close>. Otherwise two different positions below \<open>n\<close> are
  returned; the pair \<open>(a, b)\<close> stands for the state of the global generator, and every
  pair of different positions is the draw of some state.
\<close>

definition np_random_choice2 :: "nat \<times> nat \<Rightarrow> nat \<Rightarrow> error + nat \<times> nat" where
  "np_random_choice2 rng n =
     (if n < 2 then Inl (ValueError ''Cannot take a larger sample than population'')
      else let i = fst rng mod n in Inr (i, (i + 1 + snd rng mod (n - 1)) mod n))"

text \<open>\<^verbatim>\<open>np.all(A == B)\<close> for two arrays of one shape.\<close>

definition np_all_equal :: "matrix \<Rightarrow> matrix \<Rightarrow> bool" where
  "np_all_equal A B = list_all2 (list_all2 (=)) A B"

definition reconstruct_matrix ::
  "library \<Rightarrow> KPCA_Recon_Error \<Rightarrow> nat \<times> nat \<Rightarrow> error + matrix list" where
  "reconstruct_matrix lib self rng =
     (case recon_series lib self of
        Inl e \<Rightarrow> Inl e
      | Inr recon_matrices \<Rightarrow>
          (case np_random_choice2 rng (snd (shape (matrix self))) of
             Inl e \<Rightarrow> Inl e
           | Inr (i, j) \<Rightarrow>
               if np_all_equal (recon_matrices ! i) (recon_matrices ! j)
               then Inl (AssertionError description)
               else Inr recon_matrices))"

subsection \<open>\<^verbatim>\<open>get_anomaly_score\<close>\<close>

definition compute_vector_length :: "real list \<Rightarrow> real" where
  "compute_vector_length vector = sqrt (sum_list (map (\<lambda>x. x\<^sup>2) vector))"

definition compute_sub_score :: "KPCA_Recon_Error \<Rightarrow> matrix \<Rightarrow> real \<Rightarrow> real list" where
  "compute_sub_score self recon_matrix ev =
     (let delta_matrix = map2 (map2 (-)) (matrix self) recon_matrix
      in map (\<lambda>row. compute_vector_length row * ev) delta_matrix)"

text \<open>
  \<^verbatim>\<open>np.sum(vs, axis=0)\<close> of a list of equally long vectors; of the empty list it is the
  scalar \<open>0.0\<close>.
\<close>

fun np_sum_axis0 :: "real list list \<Rightarrow> ndarray" where
  "np_sum_axis0 [] = Scalar 0"
| "np_sum_axis0 (v # vs) = Array1 (foldl (map2 (+)) v vs)"

text \<open>
  Python's \<^verbatim>\<open>map(f, xs, ys)\<close> stops at the end of the shorter argument, as \<open>map2\<close> does.
\<close>

definition get_anomaly_score ::
  "library \<Rightarrow> KPCA_Recon_Error \<Rightarrow> nat \<times> nat \<Rightarrow> error + ndarray" where
  "get_anomaly_score lib self rng =
     (case get_ev_ratio lib self of
        Inl e \<Rightarrow> Inl e
      | Inr ev_ratio \<Rightarrow>
          (case reconstruct_matrix lib self rng of
             Inl e \<Rightarrow> Inl e
           | Inr reconstruct_matrices \<Rightarrow>
               Inr (np_sum_axis0 (map2 (compute_sub_score self) reconstruct_matrices ev_ratio))))"

subsection \<open>\<^verbatim>\<open>get_anomaly_indices\<close> and \<^verbatim>\<open>predict\<close>\<close>

fun np_negative :: "ndarray \<Rightarrow> ndarray" where
  "np_negative (Scalar x) = Scalar (- x)"
| "np_negative (Array1 v) = Array1 (map uminus v)"

text \<open>argsort treats a scalar as the array of its one element.\<close>

fun np_ravel :: "ndarray \<Rightarrow> real list" where
  "np_ravel (Scalar x) = [x]"
| "np_ravel (Array1 v) = v"

text \<open>The slice \<^verbatim>\<open>xs[:k]\<close>; a negative \<open>k\<close> counts from the end.\<close>

definition py_slice_to :: "int \<Rightarrow> 'a list \<Rightarrow> 'a list" where
  "py_slice_to k xs = (if 0 \<le> k then take (nat k) xs else take (nat (int (length xs) + k)) xs)"

text \<open>
  \<^verbatim>\<open>len(self.matrix) * self.contamination\<close> is a float64 product: the exact product of
  the row count and the float64 number the object holds, rounded to the nearest number
  with a 53-bit significand, ties to the even one. Overflow and subnormal numbers are
  left out; the row count converts exactly.
\<close>

definition round_half_even :: "real \<Rightarrow> int" where
  "round_half_even y =
     (let f = \<lfloor>y\<rfloor> in
      if y - of_int f < 1/2 then f
      else if 1/2 < y - of_int f then f + 1
      else if even f then f else f + 1)"

definition float64_round :: "real \<Rightarrow> real" where
  "float64_round x =
     (if x = 0 then 0
      else let ulp = 2 powi (\<lfloor>log 2 \<bar>x\<bar>\<rfloor> - 52)
           in of_int (round_half_even (x / ulp)) * ulp)"

text \<open>\<^verbatim>\<open>int(np.ceil(len(self.matrix) * self.contamination))\<close>\<close>

definition anomaly_num :: "KPCA_Recon_Error \<Rightarrow> int" where
  "anomaly_num self = \<lceil>float64_round (real (length (matrix self)) * contamination self)\<rceil>"

definition get_anomaly_indices ::
  "library \<Rightarrow> KPCA_Recon_Error \<Rightarrow> nat \<times> nat \<Rightarrow> error + nat list" where
  "get_anomaly_indices lib self rng =
     (case get_anomaly_score lib self rng of
        Inl e \<Rightarrow> Inl e
      | Inr score \<Rightarrow>
          (let indices_desc = np_argsort lib (np_ravel (np_negative score))
           in Inr (py_slice_to (anomaly_num self) indices_desc)))"

definition np_isin_range :: "nat \<Rightarrow> nat list \<Rightarrow> int list" where
  "np_isin_range n anomaly_indices = map (\<lambda>i. if i \<in> set anomaly_indices then 1 else 0) [0..<n]"

definition predict :: "library \<Rightarrow> KPCA_Recon_Error \<Rightarrow> nat \<times> nat \<Rightarrow> error + int list" where
  "predict lib self rng =
     (case get_anomaly_indices lib self rng of
        Inl e \<Rightarrow> Inl e
      | Inr anomaly_indices \<Rightarrow> Inr (np_isin_range (length (matrix self)) anomaly_indices))"

subsection \<open>What the library is expected to deliver\<close>



text \<open>Two sorts that meet the promise: a stable one, and one that reverses equal keys.\<close>

definition stable_argsort :: "real list \<Rightarrow> nat list" where
  "stable_argsort xs = sort_key (\<lambda>i. xs ! i) [0..<length xs]"


subsection \<open>Sample inputs\<close>







text \<open>
  Two rows and three columns. The Gram matrix of two samples is 2 by 2, so the full
  decomposition has at most two eigenvalues (here one), and a fit with two components is
  the same computation as a fit with three: the last two reconstructions coincide.
\<close>

definition wide_raw :: matrix where
  "wide_raw = [[0, 2, 0], [2, 0, 2]]"

definition wide_self :: KPCA_Recon_Error where
  "wide_self = \<lparr>matrix = [[-1, 1, -1], [1, -1, 1]], contamination = 1/2, kernel = Linear,
                 gamma = None, verbose = 0, random_state = 2018\<rparr>"

definition wide_lib :: library where
  "wide_lib = \<lparr>KernelPCA_lambdas = (\<lambda>k g rs X. Inr [6]),
                KernelPCA_reconstruct =
                  (\<lambda>n k g rs X. Inr (if n = 1 then [[-1, 1, 0], [1, -1, 0]]
                                       else [[-1, 1, -1], [1, -1, 0]])),
                np_argsort = stable_argsort\<rparr>"

text \<open>One column, and a library whose reconstruction returns the matrix itself.\<close>

definition single_self :: KPCA_Recon_Error where
  "single_self = \<lparr>matrix = [[-1], [1]], contamination = 1/2, kernel = Rbf,
                   gamma = None, verbose = 3, random_state = 2018\<rparr>"

definition echo_lib :: library where
  "echo_lib = \<lparr>KernelPCA_lambdas = (\<lambda>k g rs X. Inr [2]),
                KernelPCA_reconstruct = (\<lambda>n k g rs X. Inr X),
                np_argsort = stable_argsort\<rparr>"


section \<open>Properties\<close>

subsection \<open>Rounding to float64\<close>

text \<open>
  The rounding is evaluated by naming the binade of its argument; a nonnegative number
  rounds to a nonnegative number that is at most twice as large.
\<close>

lemma floor_log2_eq:
  assumes "2 powi k \<le> x" and "x < 2 powi (k + 1)"
  shows "\<lfloor>log 2 x\<rfloor> = k"
proof -
  have pos: "0 < x" using assms(1) by (rule less_le_trans [rotated]) simp
  have "(2::real) powr real_of_int k = 2 powi k"
    by (rule powr_real_of_int') simp_all
  moreover have "(2::real) powr real_of_int (k + 1) = 2 powi (k + 1)"
    by (rule powr_real_of_int') simp_all
  ultimately have "2 powr real_of_int k \<le> x \<and> x < 2 powr real_of_int (k + 1)"
    using assms by simp
  then show ?thesis using pos floor_log_eq_powr_iff [of x 2 k] by simp
qed

lemma float64_round_eval:
  assumes "2 powi k \<le> \<bar>x\<bar>" and "\<bar>x\<bar> < 2 powi (k + 1)"
  shows "float64_round x = of_int (round_half_even (x / 2 powi (k - 52))) * 2 powi (k - 52)"
proof -
  have "0 < (2::real) powi k" by simp
  then have "0 < \<bar>x\<bar>" using assms(1) by (rule less_le_trans)
  then have "x \<noteq> 0" by simp
  then show ?thesis by (simp add: float64_round_def Let_def floor_log2_eq [OF assms])
qed








lemma anomaly_num_wide: "anomaly_num wide_self = 1"
  by (simp add: anomaly_num_def wide_self_def float64_round_eval [where k = 0]
      round_half_even_def)

subsection \<open>The reconstruction series\<close>

text \<open>
  The list comprehension returns a list exactly when every call returns, and the verbose
  loop builds the same list: the branch on \<open>verbose\<close> changes what is printed only.
\<close>


lemma comprehension_Inr_iff:
  "comprehension f ks = Inr ys \<longleftrightarrow> map f ks = map Inr ys"
proof (induction ks arbitrary: ys)
  case Nil
  then show ?case by auto
next
  case (Cons k ks)
  show ?case
  proof (cases "f k")
    case (Inl e)
    then show ?thesis by (cases ys) auto
  next
    case (Inr y)
    note fk = this
    show ?thesis
    proof (cases "comprehension f ks")
      case (Inl e)
      with Cons.IH fk show ?thesis by (cases ys) auto
    next
      case (Inr zs)
      with Cons.IH fk show ?thesis by (cases ys) auto
    qed
  qed
qed

lemma append_loop_comprehension:
  "append_loop f ks acc =
     (case comprehension f ks of Inl e \<Rightarrow> Inl e | Inr ys \<Rightarrow> Inr (acc @ ys))"
  by (induction ks arbitrary: acc) (auto split: sum.splits)

lemma recon_series_comprehension:
  "recon_series lib self =
     comprehension (reconstruct lib self) [1..<snd (shape (matrix self)) + 1]"
  by (simp add: recon_series_def Let_def append_loop_comprehension split: sum.splits)

lemma recon_series_length:
  assumes "recon_series lib self = Inr Rs"
  shows "length Rs = snd (shape (matrix self))"
proof -
  from assms have "map (reconstruct lib self) [1..<snd (shape (matrix self)) + 1] = map Inr Rs"
    by (simp add: recon_series_comprehension comprehension_Inr_iff)
  then have "length (map (reconstruct lib self) [1..<snd (shape (matrix self)) + 1]) = length (map Inr Rs :: (error + matrix) list)"
    by simp
  then show ?thesis by (simp del: upt_Suc)
qed




lemma np_random_choice2_small: "n < 2 \<Longrightarrow> \<exists>e. np_random_choice2 rng n = Inl e"
  by (simp add: np_random_choice2_def)

lemma np_random_choice2_distinct:
  assumes "np_random_choice2 rng n = Inr (i, j)"
  shows "i < n \<and> j < n \<and> i \<noteq> j"
proof -
  from assms have n: "2 \<le> n" and i: "i = fst rng mod n"
    and j: "j = (i + 1 + snd rng mod (n - 1)) mod n"
    by (auto simp: np_random_choice2_def Let_def split: if_splits)
  define t where "t = snd rng mod (n - 1)"
  have t: "t < n - 1" unfolding t_def using n by simp
  have iltn: "i < n" using i n by simp
  have jltn: "j < n" using j n by simp
  have "i \<noteq> j"
  proof (cases "i + 1 + t < n")
    case True
    then have "j = i + 1 + t" using j t_def by simp
    then show ?thesis by simp
  next
    case False
    then have ge: "n \<le> i + 1 + t" by simp
    have lt2: "i + 1 + t < 2 * n" using iltn t by simp
    have "(i + 1 + t) mod n = i + 1 + t - n"
      using ge lt2 by (simp add: mod_if)
    then have "j = i + 1 + t - n" using j t_def by simp
    then show ?thesis using ge t by simp
  qed
  with iltn jltn show ?thesis by simp
qed

lemma np_random_choice2_any:
  assumes "i < n" "j < n" "i \<noteq> j"
  shows "\<exists>rng. np_random_choice2 rng n = Inr (i, j)"
proof -
  from assms have n: "2 \<le> n" by simp
  define b where "b = (if i < j then j - i - 1 else n + j - i - 1)"
  have b: "b < n - 1" using assms by (auto simp: b_def)
  have "(i + 1 + b) mod n = j"
  proof (cases "i < j")
    case True
    then have "i + 1 + b = j" by (simp add: b_def)
    then show ?thesis using assms by simp
  next
    case False
    then have "i + 1 + b = n + j" using assms by (simp add: b_def)
    then show ?thesis using assms by simp
  qed
  then have "np_random_choice2 (i, b) n = Inr (i, j)"
    using n assms b by (simp add: np_random_choice2_def Let_def)
  then show ?thesis by blast
qed

lemma np_all_equal_iff: "np_all_equal A B \<longleftrightarrow> A = B"
  by (simp add: np_all_equal_def list.rel_eq)

subsection \<open>A single column\<close>

text \<open>
  Claim C10. When the matrix has exactly one column, the sanity check asks for two
  different positions out of one, which raises \<^verbatim>\<open>ValueError\<close>: the reconstruction series,
  the score and the prediction all end in an exception, for every library behaviour and
  every state of the generator. When the single reconstruction itself succeeds, the
  exception is that \<^verbatim>\<open>ValueError\<close>.
\<close>

theorem single_column_fails:
  assumes "snd (shape (matrix self)) = 1"
  shows "(\<exists>e. reconstruct_matrix lib self rng = Inl e) \<and>
         (\<exists>e. get_anomaly_score lib self rng = Inl e) \<and>
         (\<exists>e. predict lib self rng = Inl e) \<and>
         (\<forall>R. reconstruct lib self 1 = Inr R \<longrightarrow>
            reconstruct_matrix lib self rng =
              Inl (ValueError ''Cannot take a larger sample than population''))"
proof -
  have choice: "np_random_choice2 rng (snd (shape (matrix self))) =
      Inl (ValueError ''Cannot take a larger sample than population'')"
    using assms by (simp add: np_random_choice2_def)
  have rm: "\<exists>e. reconstruct_matrix lib self rng = Inl e"
    by (simp add: reconstruct_matrix_def choice split: sum.splits)
  then obtain e where e: "reconstruct_matrix lib self rng = Inl e" ..
  have sc: "\<exists>e. get_anomaly_score lib self rng = Inl e"
    by (simp add: get_anomaly_score_def e split: sum.splits)
  then obtain e' where e': "get_anomaly_score lib self rng = Inl e'" ..
  have pr: "\<exists>e. predict lib self rng = Inl e"
    by (simp add: predict_def get_anomaly_indices_def e')
  have series: "reconstruct lib self 1 = Inr R \<Longrightarrow> recon_series lib self = Inr [R]" for R
    using assms by (simp add: recon_series_comprehension)
  have "reconstruct_matrix lib self rng =
          Inl (ValueError ''Cannot take a larger sample than population'')"
    if "reconstruct lib self 1 = Inr R" for R
    using series [OF that] by (simp add: reconstruct_matrix_def choice)
  with rm sc pr show ?thesis by blast
qed



theorem single_column_fails_witness:
  "snd (shape (matrix single_self)) = 1 \<and>
   reconstruct echo_lib single_self 1 = Inr [[-1], [1]] \<and>
   reconstruct_matrix echo_lib single_self (0, 0) =
     Inl (ValueError ''Cannot take a larger sample than population'') \<and>
   (\<exists>e. get_anomaly_score echo_lib single_self (0, 0) = Inl e) \<and>
   (\<exists>e. predict echo_lib single_self (0, 0) = Inl e)"
proof -
  have d: "snd (shape (matrix single_self)) = 1"
    by (simp add: single_self_def shape_def)
  have r: "reconstruct echo_lib single_self 1 = Inr [[-1], [1]]"
    by (simp add: reconstruct_def echo_lib_def single_self_def shape_def)
  from single_column_fails [OF d, of echo_lib "(0, 0)"] d r show ?thesis
    by blast
qed

subsection \<open>The sanity check on the series\<close>

lemma reconstruct_matrix_Inr_series:
  "reconstruct_matrix lib self rng = Inr Rs \<Longrightarrow> recon_series lib self = Inr Rs"
  by (auto simp: reconstruct_matrix_def split: sum.splits if_splits)

lemma reconstruct_matrix_Inr_cols:
  "reconstruct_matrix lib self rng = Inr Rs \<Longrightarrow> 2 \<le> snd (shape (matrix self))"
  by (auto simp: reconstruct_matrix_def np_random_choice2_def split: sum.splits if_splits)

lemma reconstruct_matrix_other_draw:
  assumes "reconstruct_matrix lib self rng1 = Inr Rs"
  shows "reconstruct_matrix lib self rng2 = Inr Rs \<or>
         reconstruct_matrix lib self rng2 = Inl (AssertionError description)"
proof -
  have s: "recon_series lib self = Inr Rs"
    using assms by (rule reconstruct_matrix_Inr_series)
  have "2 \<le> snd (shape (matrix self))"
    using assms by (rule reconstruct_matrix_Inr_cols)
  then obtain i j where "np_random_choice2 rng2 (snd (shape (matrix self))) = Inr (i, j)"
    by (simp add: np_random_choice2_def Let_def)
  then show ?thesis by (simp add: reconstruct_matrix_def s)
qed

lemmas wide_unf = recon_series_comprehension reconstruct_def shape_def wide_lib_def wide_self_def
  np_random_choice2_def

lemmas eval_unf = get_anomaly_score_def get_ev_ratio_def reconstruct_matrix_def
  compute_sub_score_def compute_vector_length_def np_cumsum_def np_all_equal_iff
  get_anomaly_indices_def predict_def py_slice_to_def np_isin_range_def

text \<open>
  Claim C5, as the code has it. The check compares the two matrices at the drawn
  positions only, and raises \<^verbatim>\<open>AssertionError\<close> exactly when those two are equal
  element by element; otherwise the whole series, one matrix per column count, is
  returned. So a series whose matrices are all equal always raises, a series whose
  matrices are pairwise different never does, and in between the outcome follows the draw.
\<close>

theorem sanity_check_outcome:
  assumes "recon_series lib self = Inr Rs"
      and "np_random_choice2 rng (snd (shape (matrix self))) = Inr (i, j)"
  shows "length Rs = snd (shape (matrix self)) \<and> i < length Rs \<and> j < length Rs \<and> i \<noteq> j \<and>
         reconstruct_matrix lib self rng =
           (if Rs ! i = Rs ! j then Inl (AssertionError description) else Inr Rs) \<and>
         ((\<forall>a<length Rs. \<forall>b<length Rs. Rs ! a = Rs ! b) \<longrightarrow>
            reconstruct_matrix lib self rng = Inl (AssertionError description)) \<and>
         (distinct Rs \<longrightarrow> reconstruct_matrix lib self rng = Inr Rs)"
proof -
  have len: "length Rs = snd (shape (matrix self))"
    using assms(1) by (rule recon_series_length)
  have ij: "i < length Rs \<and> j < length Rs \<and> i \<noteq> j"
    using np_random_choice2_distinct [OF assms(2)] len by simp
  have out: "reconstruct_matrix lib self rng =
           (if Rs ! i = Rs ! j then Inl (AssertionError description) else Inr Rs)"
    by (simp add: reconstruct_matrix_def assms np_all_equal_iff)
  have same: "reconstruct_matrix lib self rng = Inl (AssertionError description)"
    if "\<forall>a<length Rs. \<forall>b<length Rs. Rs ! a = Rs ! b"
    using that ij out by simp
  have diff: "reconstruct_matrix lib self rng = Inr Rs" if "distinct Rs"
    using that ij out by (simp add: nth_eq_iff_index_eq)
  from len ij out same diff show ?thesis by blast
qed

theorem sanity_check_outcome_witness:
  "recon_series wide_lib wide_self =
     Inr [[[-1, 1, 0], [1, -1, 0]], [[-1, 1, -1], [1, -1, 0]], [[-1, 1, -1], [1, -1, 0]]] \<and>
   np_random_choice2 (0, 0) (snd (shape (matrix wide_self))) = Inr (0, 1) \<and>
   reconstruct_matrix wide_lib wide_self (0, 0) =
     Inr [[[-1, 1, 0], [1, -1, 0]], [[-1, 1, -1], [1, -1, 0]], [[-1, 1, -1], [1, -1, 0]]]"
proof -
  have s: "recon_series wide_lib wide_self =
     Inr [[[-1, 1, 0], [1, -1, 0]], [[-1, 1, -1], [1, -1, 0]], [[-1, 1, -1], [1, -1, 0]]]"
    by (simp add: wide_unf)
  have c: "np_random_choice2 (0, 0) (snd (shape (matrix wide_self))) = Inr (0, 1)"
    by (simp add: wide_unf)
  from sanity_check_outcome [OF s c] s c show ?thesis by simp
qed

text \<open>
  Claim C5 as stated fails: in the series below the first matrix differs from the other
  two, so the series is not degenerate, and yet the draw of positions 1 and 2 raises.
\<close>

theorem sanity_check_counterexample:
  "recon_series wide_lib wide_self =
     Inr [[[-1, 1, 0], [1, -1, 0]], [[-1, 1, -1], [1, -1, 0]], [[-1, 1, -1], [1, -1, 0]]] \<and>
   [[-1, 1, 0], [1, -1, 0]] \<noteq> [[-1, 1, -1], [1, -1, 0 :: real]] \<and>
   reconstruct_matrix wide_lib wide_self (1, 0) = Inl (AssertionError description)"
  by (simp add: reconstruct_matrix_def wide_unf np_all_equal_iff)

subsection \<open>Repeated invocations\<close>

lemma score_other_draw:
  assumes "get_anomaly_score lib self rng1 = Inr s"
  shows "get_anomaly_score lib self rng2 = Inr s \<or>
         get_anomaly_score lib self rng2 = Inl (AssertionError description)"
proof -
  from assms obtain ev Rs where ev: "get_ev_ratio lib self = Inr ev"
    and Rs: "reconstruct_matrix lib self rng1 = Inr Rs"
    and s: "s = np_sum_axis0 (map2 (compute_sub_score self) Rs ev)"
    by (auto simp: get_anomaly_score_def split: sum.splits)
  from reconstruct_matrix_other_draw [OF Rs, of rng2] show ?thesis
    by (auto simp: get_anomaly_score_def ev s)
qed

text \<open>
  Claim C8, as the code has it. The matrix, the configuration and the library are the
  same in both invocations; the draw of the sanity check is not, because it comes from
  the global generator. When one invocation of \<^verbatim>\<open>predict\<close> returns labels, any other
  invocation either returns the same labels or stops at the sanity assertion.
\<close>

theorem predict_repeatable:
  assumes "predict lib self rng1 = Inr labels"
  shows "predict lib self rng2 = Inr labels \<or>
         predict lib self rng2 = Inl (AssertionError description)"
proof -
  from assms obtain s where s: "get_anomaly_score lib self rng1 = Inr s"
    by (auto simp: predict_def get_anomaly_indices_def split: sum.splits)
  from score_other_draw [OF s, of rng2] assms s show ?thesis
    by (auto simp: predict_def get_anomaly_indices_def Let_def)
qed

theorem predict_repeatable_witness:
  "predict wide_lib wide_self (0, 0) = Inr [1, 0] \<and>
   predict wide_lib wide_self (0, 1) = Inr [1, 0]"
proof -
  have p: "predict wide_lib wide_self (0, 0) = Inr [1, 0]"
    by (simp add: eval_unf wide_unf stable_argsort_def anomaly_num_wide [unfolded wide_self_def])
  have q: "predict wide_lib wide_self (0, 1) \<noteq> Inl (AssertionError description)"
    by (simp add: eval_unf wide_unf stable_argsort_def anomaly_num_wide [unfolded wide_self_def])
  from predict_repeatable [OF p, of "(0, 1)"] p q show ?thesis by simp
qed

text \<open>
  Claim C8 as stated fails: on one matrix, one configuration and one library, the
  invocation whose check draws positions 0 and 1 returns labels and the invocation whose
  check draws positions 1 and 2 raises.
\<close>

theorem predict_repeatable_counterexample:
  "predict wide_lib wide_self (0, 0) = Inr [1, 0] \<and>
   predict wide_lib wide_self (1, 0) = Inl (AssertionError description)"
  by (simp add: eval_unf wide_unf stable_argsort_def anomaly_num_wide [unfolded wide_self_def])

subsection \<open>The cumulative variance ratio\<close>





subsection \<open>The score\<close>
















text \<open>
  Claim C2 at the same matrix: it has three columns, and the sequence of ratios has the
  single element the single eigenvalue gives.
\<close>

theorem short_ev_ratio:
  "KPCA_Recon_Error_init wide_raw (1/2) Linear 0 None 2018 = Inr wide_self \<and>
   shape (matrix wide_self) = (2, 3) \<and>
   get_ev_ratio wide_lib wide_self = Inr [1]"
  by (simp add: KPCA_Recon_Error_init_def StandardScaler_fit_transform_def is_2d_def
        shape_def wide_raw_def wide_self_def column_def np_mean_def np_var_def scale_of_def
        handle_zeros_in_scale_def get_ev_ratio_def np_cumsum_def wide_lib_def)

subsection \<open>Ranking\<close>










subsection \<open>Sample runs of the ranking\<close>













subsection \<open>The number of anomalies\<close>




subsection \<open>The order of the ranking\<close>







subsection \<open>No check of the contamination\<close>










subsection \<open>No check of the variance\<close>






end
